theory Spec2Isabelle
  imports Main
begin

section \<open>JavaScript values\<close>

text \<open>
  The services are TypeScript. A \<open>number\<close> that holds an expiry or a clock reading is
  modelled over the mathematical integers, which is exact for JavaScript inside the
  safe-integer range \<open>|x| \<le> 2^53 - 1\<close>; every time value of the language
  (\<open>|t| \<le> 8.64 * 10^15\<close>) lies in it. \<open>parseInt\<close> can also return \<open>NaN\<close>, so the
  type of numbers has that extra value. Positive and negative zero are not told apart:
  \<open>!x\<close>, \<open>>=\<close> and \<open>===\<close> do not tell them apart either.
\<close>

datatype number = NaN | Num int

definition isSafeInteger :: "int \<Rightarrow> bool" where
  "isSafeInteger x = (\<bar>x\<bar> \<le> 2 ^ 53 - 1)"

subsection \<open>\<open>Number.prototype.toString()\<close> on an integer\<close>

definition digit_char :: "nat \<Rightarrow> char" where
  "digit_char d = ''0123456789'' ! d"

fun nat_digits :: "nat \<Rightarrow> string" where
  "nat_digits n =
     (if 10 \<le> n then nat_digits (n div 10) @ [digit_char (n mod 10)] else [digit_char n])"

declare nat_digits.simps [simp del]

text \<open>
  An integer below \<open>10^21\<close> in magnitude is written in decimal, most significant digit
  first, with a leading minus sign when negative; \<open>NaN\<close> is written \<open>NaN\<close>.
\<close>

fun number_toString :: "number \<Rightarrow> string" where
  "number_toString NaN = ''NaN''"
| "number_toString (Num x) =
     (if x < 0 then CHR ''-'' # nat_digits (nat (- x)) else nat_digits (nat x))"

subsection \<open>\<open>parseInt(string, 10)\<close>\<close>

text \<open>
  The steps of the language definition, for radix 10: skip leading white space, read an
  optional sign, take the longest run of decimal digits, and stop at the first other
  character. No digit at all gives \<open>NaN\<close>. Whatever follows the digits is ignored.
  Strings are lists of 8-bit characters here, so the white space is the ASCII white
  space, the line terminators and the no-break space.
\<close>

definition isWhiteSpace :: "char \<Rightarrow> bool" where
  "isWhiteSpace c = ((of_char c :: nat) \<in> {9, 10, 11, 12, 13, 32, 160})"

definition isDigit :: "char \<Rightarrow> bool" where
  "isDigit c = (of_char (CHR ''0'') \<le> (of_char c :: nat) \<and> (of_char c :: nat) \<le> of_char (CHR ''9''))"

definition digit_value :: "char \<Rightarrow> nat" where
  "digit_value c = of_char c - of_char (CHR ''0'')"

definition mathInt :: "string \<Rightarrow> nat" where
  "mathInt Z = foldl (\<lambda>a c. 10 * a + digit_value c) 0 Z"

definition parseInt :: "string \<Rightarrow> number" where
  "parseInt inputString =
     (let S = dropWhile isWhiteSpace inputString;
          sign = (if S \<noteq> [] \<and> hd S = CHR ''-'' then - 1 else 1);
          S' = (if S \<noteq> [] \<and> (hd S = CHR ''+'' \<or> hd S = CHR ''-'') then tl S else S);
          Z = takeWhile isDigit S'
      in if Z = [] then NaN else Num (sign * int (mathInt Z)))"

subsection \<open>Truthiness\<close>

text \<open>
  \<open>null\<close> and the empty string are falsy among \<open>string | null\<close>; \<open>null\<close>, \<open>0\<close> and
  \<open>NaN\<close> are falsy among \<open>number | null\<close>.
\<close>

fun truthy_string :: "string option \<Rightarrow> bool" where
  "truthy_string None = False"
| "truthy_string (Some v) = (v \<noteq> [])"

fun truthy_number :: "number option \<Rightarrow> bool" where
  "truthy_number None = False"
| "truthy_number (Some NaN) = False"
| "truthy_number (Some (Num x)) = (x \<noteq> 0)"

section \<open>The models of the authentication API\<close>

text \<open>
  The interfaces of \<open>auth.model\<close>. Three of them have fields of the same name, so those
  fields carry the name of their interface.
\<close>

record LoginRequest =
  login_email :: string
  login_password :: string

record SignupRequest =
  signup_email :: string
  signup_password :: string
  signup_name :: string

record User =
  user_id :: string
  user_email :: string
  user_name :: string

record LoginResponse =
  token :: string
  refreshToken :: string
  expiresIn :: int
  user :: User

section \<open>Browser storage, the HTTP client and the state of the two services\<close>

text \<open>The bodies of the seven POST requests the coordinator sends.\<close>

datatype body =
    LoginBody LoginRequest
  | SignupBody SignupRequest
  | EmptyBody
  | RefreshBody string
  | PasswordResetRequestBody string
  | PasswordResetConfirmBody string string
  | ChangePasswordBody string string

text \<open>
  What a subscriber of an observable of the HTTP client receives: one value, or an error.
  The injected client is a parameter of every operation: it says how each request
  settles. \<open>post_auth\<close> is \<open>post<LoginResponse>\<close>, \<open>post_any\<close> the untyped \<open>post\<close>.
\<close>

datatype 'a notification = Next 'a | Error string

record HttpClient =
  post_auth :: "string \<Rightarrow> body \<Rightarrow> LoginResponse notification"
  post_any :: "string \<Rightarrow> body \<Rightarrow> string notification"

text \<open>
  Every effect of the two services on the world outside them, in the order performed:
  writes and removals on \<open>localStorage\<close>, requests handed to the HTTP client, and values
  pushed into the two \<open>BehaviorSubject\<close>s.
\<close>

datatype effect =
    SetItem string string
  | RemoveItem string
  | Post string body
  | NextCurrentUser "User option"
  | NextAuthenticated bool

text \<open>
  \<open>localStorage\<close> maps keys to strings. \<open>currentUser\<close> and \<open>authenticated\<close> are the
  latest values of \<open>currentUser$\<close> and \<open>authenticated$\<close>. \<open>effects\<close> is the history of
  effects so far; no operation reads it. The storage is taken to be always available:
  \<open>setItem\<close>, \<open>getItem\<close> and \<open>removeItem\<close> do not throw.
\<close>

record state =
  localStorage :: "string \<rightharpoonup> string"
  currentUser :: "User option"
  authenticated :: bool
  effects :: "effect list"

definition perform :: "effect \<Rightarrow> state \<Rightarrow> state" where
  "perform e s = s\<lparr>effects := effects s @ [e]\<rparr>"

definition setItem :: "string \<Rightarrow> string \<Rightarrow> state \<Rightarrow> state" where
  "setItem key v s = perform (SetItem key v) (s\<lparr>localStorage := (localStorage s)(key \<mapsto> v)\<rparr>)"

definition getItem :: "string \<Rightarrow> state \<Rightarrow> string option" where
  "getItem key s = localStorage s key"

definition removeItem :: "string \<Rightarrow> state \<Rightarrow> state" where
  "removeItem key s = perform (RemoveItem key) (s\<lparr>localStorage := (localStorage s)(key := None)\<rparr>)"

definition next_currentUser :: "User option \<Rightarrow> state \<Rightarrow> state" where
  "next_currentUser u s = perform (NextCurrentUser u) (s\<lparr>currentUser := u\<rparr>)"

definition next_authenticated :: "bool \<Rightarrow> state \<Rightarrow> state" where
  "next_authenticated b s = perform (NextAuthenticated b) (s\<lparr>authenticated := b\<rparr>)"

text \<open>The requests sent so far, oldest first.\<close>

fun posts :: "effect list \<Rightarrow> (string \<times> body) list" where
  "posts [] = []"
| "posts (Post url b # es) = (url, b) # posts es"
| "posts (_ # es) = posts es"

section \<open>TokenService\<close>

definition TOKEN_KEY :: string where
  "TOKEN_KEY = ''auth_token''"

definition REFRESH_TOKEN_KEY :: string where
  "REFRESH_TOKEN_KEY = ''refresh_token''"

definition TOKEN_EXPIRY_KEY :: string where
  "TOKEN_EXPIRY_KEY = ''token_expiry''"

definition setToken :: "string \<Rightarrow> state \<Rightarrow> state" where
  "setToken tok s = setItem TOKEN_KEY tok s"

definition getToken :: "state \<Rightarrow> string option" where
  "getToken s = getItem TOKEN_KEY s"

definition setRefreshToken :: "string \<Rightarrow> state \<Rightarrow> state" where
  "setRefreshToken tok s = setItem REFRESH_TOKEN_KEY tok s"

definition getRefreshToken :: "state \<Rightarrow> string option" where
  "getRefreshToken s = getItem REFRESH_TOKEN_KEY s"

definition setTokenExpiry :: "number \<Rightarrow> state \<Rightarrow> state" where
  "setTokenExpiry expiryTime s = setItem TOKEN_EXPIRY_KEY (number_toString expiryTime) s"

text \<open>\<open>expiry ? parseInt(expiry, 10) : null\<close>: an empty string is read as no expiry.\<close>

definition getTokenExpiry :: "state \<Rightarrow> number option" where
  "getTokenExpiry s =
     (case getItem TOKEN_EXPIRY_KEY s of
        None \<Rightarrow> None
      | Some expiry \<Rightarrow> if truthy_string (Some expiry) then Some (parseInt expiry) else None)"

text \<open>\<open>now\<close> is what \<open>Date.now()\<close> returns at the call.\<close>

definition isTokenExpired :: "int \<Rightarrow> state \<Rightarrow> bool" where
  "isTokenExpired now s =
     (let expiry = getTokenExpiry s
      in if \<not> truthy_number expiry then True
         else (case expiry of Some (Num e) \<Rightarrow> e \<le> now | _ \<Rightarrow> False))"

definition clearTokens :: "state \<Rightarrow> state" where
  "clearTokens s =
     removeItem TOKEN_EXPIRY_KEY (removeItem REFRESH_TOKEN_KEY (removeItem TOKEN_KEY s))"

definition hasToken :: "state \<Rightarrow> bool" where
  "hasToken s = truthy_string (getToken s)"

section \<open>AuthService\<close>

text \<open>
  An operation that returns an observable is modelled as called and subscribed once: its
  result is what the subscriber receives, paired with the state once the request has
  settled and the handlers of the pipe have run. \<open>logout\<close> subscribes by itself and
  returns nothing, so its result is the state once its request has settled. \<open>now\<close> is
  what \<open>Date.now()\<close> returns when the response is handled.
\<close>

definition API_URL :: string where
  "API_URL = ''/api/auth''"

text \<open>
  \<open>expiresIn\<close> is taken to be a whole number of seconds. The code computes
  \<open>Date.now() + response.expiresIn * 1000\<close> in double precision; the product and the sum
  below are over the integers. The two agree when the clock reading, the product and the
  sum are safe integers, which \<open>expiry_exact\<close> says. Outside that range the code stores
  the string of a rounded number, which the model does not give: every statement
  about the value of the stored expiry carries \<open>expiry_exact\<close>.
\<close>

definition expiry_exact :: "int \<Rightarrow> LoginResponse \<Rightarrow> bool" where
  "expiry_exact now response =
     (isSafeInteger now \<and> isSafeInteger (expiresIn response * 1000) \<and>
      isSafeInteger (now + expiresIn response * 1000))"

definition handleAuthResponse :: "int \<Rightarrow> LoginResponse \<Rightarrow> state \<Rightarrow> state" where
  "handleAuthResponse now response s =
     (let s1 = setToken (token response) s;
          s2 = setRefreshToken (LoginResponse.refreshToken response) s1;
          expiryTime = now + expiresIn response * 1000;
          s3 = setTokenExpiry (Num expiryTime) s2;
          s4 = next_currentUser (Some (user response)) s3
      in next_authenticated True s4)"

definition clearAuth :: "state \<Rightarrow> state" where
  "clearAuth s = next_authenticated False (next_currentUser None (clearTokens s))"

definition logout :: "HttpClient \<Rightarrow> state \<Rightarrow> state" where
  "logout http s =
     (let url = API_URL @ ''/logout'';
          s1 = perform (Post url EmptyBody) s
      in case post_any http url EmptyBody of
           Next _ \<Rightarrow> clearAuth s1
         | Error _ \<Rightarrow> clearAuth s1)"

definition initializeAuth :: "HttpClient \<Rightarrow> int \<Rightarrow> state \<Rightarrow> state" where
  "initializeAuth http now s =
     (if hasToken s \<and> \<not> isTokenExpired now s then next_authenticated True s
      else logout http s)"

text \<open>The constructor: both subjects start at their initial values, then \<open>initializeAuth\<close> runs.\<close>

definition AuthService :: "HttpClient \<Rightarrow> int \<Rightarrow> (string \<rightharpoonup> string) \<Rightarrow> state" where
  "AuthService http now store =
     initializeAuth http now
       \<lparr>localStorage = store, currentUser = None, authenticated = False, effects = []\<rparr>"

definition login ::
  "HttpClient \<Rightarrow> int \<Rightarrow> LoginRequest \<Rightarrow> state \<Rightarrow> LoginResponse notification \<times> state" where
  "login http now loginRequest s =
     (let url = API_URL @ ''/login'';
          s1 = perform (Post url (LoginBody loginRequest)) s
      in case post_auth http url (LoginBody loginRequest) of
           Next response \<Rightarrow> (Next response, handleAuthResponse now response s1)
         | Error error \<Rightarrow> (Error error, next_authenticated False s1))"

definition signup ::
  "HttpClient \<Rightarrow> int \<Rightarrow> SignupRequest \<Rightarrow> state \<Rightarrow> LoginResponse notification \<times> state" where
  "signup http now signupRequest s =
     (let url = API_URL @ ''/signup'';
          s1 = perform (Post url (SignupBody signupRequest)) s
      in case post_auth http url (SignupBody signupRequest) of
           Next response \<Rightarrow> (Next response, handleAuthResponse now response s1)
         | Error error \<Rightarrow> (Error error, next_authenticated False s1))"

text \<open>
  With a falsy refresh token (none, or the empty string) \<open>refreshToken\<close> calls \<open>logout\<close>
  and returns \<open>of(null)\<close>, which delivers \<open>null\<close>: the value \<open>Next None\<close>.
\<close>

definition refreshToken ::
  "HttpClient \<Rightarrow> int \<Rightarrow> state \<Rightarrow> LoginResponse option notification \<times> state" where
  "refreshToken http now s =
     (let refreshToken = getRefreshToken s
      in if \<not> truthy_string refreshToken then (Next None, logout http s)
         else
           (let url = API_URL @ ''/refresh'';
                b = RefreshBody (case refreshToken of Some r \<Rightarrow> r | None \<Rightarrow> []);
                s1 = perform (Post url b) s
            in case post_auth http url b of
                 Next response \<Rightarrow> (Next (Some response), handleAuthResponse now response s1)
               | Error error \<Rightarrow> (Error error, logout http s1)))"

definition isAuthenticated :: "int \<Rightarrow> state \<Rightarrow> bool" where
  "isAuthenticated now s = (hasToken s \<and> \<not> isTokenExpired now s)"

definition getCurrentUser :: "state \<Rightarrow> User option" where
  "getCurrentUser s = currentUser s"

definition requestPasswordReset ::
  "HttpClient \<Rightarrow> string \<Rightarrow> state \<Rightarrow> string notification \<times> state" where
  "requestPasswordReset http email s =
     (let url = API_URL @ ''/password-reset/request'';
          b = PasswordResetRequestBody email
      in (post_any http url b, perform (Post url b) s))"

definition resetPassword ::
  "HttpClient \<Rightarrow> string \<Rightarrow> string \<Rightarrow> state \<Rightarrow> string notification \<times> state" where
  "resetPassword http tok newPassword s =
     (let url = API_URL @ ''/password-reset/confirm'';
          b = PasswordResetConfirmBody tok newPassword
      in (post_any http url b, perform (Post url b) s))"

definition changePassword ::
  "HttpClient \<Rightarrow> string \<Rightarrow> string \<Rightarrow> state \<Rightarrow> string notification \<times> state" where
  "changePassword http oldPassword newPassword s =
     (let url = API_URL @ ''/change-password'';
          b = ChangePasswordBody oldPassword newPassword
      in (post_any http url b, perform (Post url b) s))"

section \<open>Notions of the specification\<close>

text \<open>
  A string is an integer numeral when it is a non-empty run of decimal digits, with an
  optional minus sign in front: the strings \<open>setTokenExpiry\<close> writes for an integer are
  of this form.
\<close>

definition is_integer_numeral :: "string \<Rightarrow> bool" where
  "is_integer_numeral str =
     (case str of
        [] \<Rightarrow> False
      | c # cs \<Rightarrow> if c = CHR ''-'' then cs \<noteq> [] \<and> list_all isDigit cs else list_all isDigit str)"

text \<open>
  A string starts with an integer when, after its leading white space and one optional
  sign, the next character is a decimal digit.
\<close>

definition starts_with_integer :: "string \<Rightarrow> bool" where
  "starts_with_integer str =
     (case dropWhile isWhiteSpace str of
        [] \<Rightarrow> False
      | c # cs \<Rightarrow> if c = CHR ''+'' \<or> c = CHR ''-'' then cs \<noteq> [] \<and> isDigit (hd cs) else isDigit c)"

text \<open>
  The three outcomes an operation can have on the session: the response \<open>r\<close> handled at
  time \<open>now\<close> is in force; the session is cleared; the session is as it was. With a
  response in force an expiry is recorded; it is the numeral of \<open>now + expiresIn * 1000\<close>
  when that arithmetic is exact.
\<close>

definition session_applied :: "int \<Rightarrow> LoginResponse \<Rightarrow> state \<Rightarrow> bool" where
  "session_applied now r s =
     (getToken s = Some (token r) \<and> getRefreshToken s = Some (LoginResponse.refreshToken r) \<and>
      getItem TOKEN_EXPIRY_KEY s \<noteq> None \<and>
      (expiry_exact now r \<longrightarrow>
         getItem TOKEN_EXPIRY_KEY s = Some (number_toString (Num (now + expiresIn r * 1000)))) \<and>
      currentUser s = Some (user r) \<and> authenticated s)"

definition session_cleared :: "state \<Rightarrow> bool" where
  "session_cleared s =
     (getToken s = None \<and> getRefreshToken s = None \<and> getItem TOKEN_EXPIRY_KEY s = None \<and>
      currentUser s = None \<and> \<not> authenticated s)"

definition session_untouched :: "state \<Rightarrow> state \<Rightarrow> bool" where
  "session_untouched s s' =
     (localStorage s' = localStorage s \<and> currentUser s' = currentUser s \<and>
      authenticated s' = authenticated s)"

section \<open>Example inputs\<close>

definition state0 :: state where
  "state0 = \<lparr>localStorage = Map.empty, currentUser = None, authenticated = False, effects = []\<rparr>"

definition alice :: User where
  "alice = \<lparr>user_id = ''1'', user_email = ''alice@example.org'', user_name = ''Alice''\<rparr>"

definition session :: LoginResponse where
  "session = \<lparr>token = ''t'', refreshToken = ''r'', expiresIn = 60, user = alice\<rparr>"

definition signed_in :: state where
  "signed_in =
     \<lparr>localStorage = [TOKEN_KEY \<mapsto> ''t0'', REFRESH_TOKEN_KEY \<mapsto> ''r0'',
                       TOKEN_EXPIRY_KEY \<mapsto> ''1700000000000''],
      currentUser = Some alice, authenticated = True, effects = []\<rparr>"

definition http_ok :: HttpClient where
  "http_ok = \<lparr>post_auth = (\<lambda>url b. Next session), post_any = (\<lambda>url b. Next ''{}'')\<rparr>"

definition http_down :: HttpClient where
  "http_down = \<lparr>post_auth = (\<lambda>url b. Error ''503''), post_any = (\<lambda>url b. Error ''503'')\<rparr>"

definition alice_login :: LoginRequest where
  "alice_login = \<lparr>login_email = ''alice@example.org'', login_password = ''pw''\<rparr>"

definition alice_signup :: SignupRequest where
  "alice_signup =
     \<lparr>signup_email = ''alice@example.org'', signup_password = ''pw'', signup_name = ''Alice''\<rparr>"

definition no_refresh_token :: state where
  "no_refresh_token =
     \<lparr>localStorage = [TOKEN_KEY \<mapsto> ''t0'', TOKEN_EXPIRY_KEY \<mapsto> ''1700000000000''],
      currentUser = Some alice, authenticated = True, effects = []\<rparr>"

definition garbled_expiry :: state where
  "garbled_expiry =
     \<lparr>localStorage = [TOKEN_KEY \<mapsto> ''t0'', TOKEN_EXPIRY_KEY \<mapsto> ''9999999999999abc''],
      currentUser = None, authenticated = False, effects = []\<rparr>"

section \<open>Printing and parsing integers\<close>

lemma of_char_digit_char: "d < 10 \<Longrightarrow> (of_char (digit_char d) :: nat) = 48 + d"
proof -
  assume "d < 10"
  then have "d \<in> {0, 1, 2, 3, 4, 5, 6, 7, 8, 9}" by auto
  then show ?thesis by (auto simp: digit_char_def)
qed

lemma isDigit_digit_char: "d < 10 \<Longrightarrow> isDigit (digit_char d)"
  by (simp add: isDigit_def of_char_digit_char)

lemma digit_value_digit_char: "d < 10 \<Longrightarrow> digit_value (digit_char d) = d"
  by (simp add: digit_value_def of_char_digit_char)

lemma nat_digits_not_Nil: "nat_digits n \<noteq> []"
  by (subst nat_digits.simps) simp

lemma nat_digits_all_digits: "c \<in> set (nat_digits n) \<Longrightarrow> isDigit c"
proof (induction n arbitrary: c rule: nat_digits.induct)
  case (1 n)
  show ?case
  proof (cases "10 \<le> n")
    case True
    with "1.prems" have "c \<in> set (nat_digits (n div 10)) \<or> c = digit_char (n mod 10)"
      by (subst (asm) nat_digits.simps) auto
    with True "1.IH" show ?thesis
      by (auto intro: isDigit_digit_char)
  next
    case False
    with "1.prems" have "c = digit_char n"
      by (subst (asm) nat_digits.simps) simp
    with False show ?thesis
      by (simp add: isDigit_digit_char)
  qed
qed

lemma mathInt_snoc: "mathInt (Z @ [c]) = 10 * mathInt Z + digit_value c"
  by (simp add: mathInt_def)

lemma mathInt_nat_digits: "mathInt (nat_digits n) = n"
proof (induction n rule: nat_digits.induct)
  case (1 n)
  show ?case
  proof (cases "10 \<le> n")
    case True
    then have "mathInt (nat_digits n) = 10 * mathInt (nat_digits (n div 10)) + n mod 10"
      by (subst nat_digits.simps) (simp add: mathInt_snoc digit_value_digit_char)
    with True "1.IH" show ?thesis by simp
  next
    case False
    then show ?thesis
      by (subst nat_digits.simps) (simp add: mathInt_def digit_value_digit_char)
  qed
qed

lemma isDigit_not_space: "isDigit c \<Longrightarrow> \<not> isWhiteSpace c"
  by (auto simp: isDigit_def isWhiteSpace_def)

lemma isDigit_not_sign: "isDigit c \<Longrightarrow> c \<noteq> CHR ''-'' \<and> c \<noteq> CHR ''+''"
  by (auto simp: isDigit_def)

lemma takeWhile_nat_digits: "takeWhile isDigit (nat_digits n) = nat_digits n"
  by (simp add: nat_digits_all_digits)

lemma hd_nat_digits: "isDigit (hd (nat_digits n))"
  using nat_digits_all_digits [of "hd (nat_digits n)" n] nat_digits_not_Nil [of n] by simp

lemma parseInt_nat_digits: "parseInt (nat_digits n) = Num (int n)"
proof -
  have ws: "dropWhile isWhiteSpace (nat_digits n) = nat_digits n"
    using hd_nat_digits [of n] nat_digits_not_Nil [of n]
    by (cases "nat_digits n") (auto dest: isDigit_not_space)
  have sg: "hd (nat_digits n) \<noteq> CHR ''-''" "hd (nat_digits n) \<noteq> CHR ''+''"
    using hd_nat_digits [of n] isDigit_not_sign by blast+
  show ?thesis
    by (simp add: parseInt_def ws sg takeWhile_nat_digits nat_digits_not_Nil mathInt_nat_digits)
qed

lemma parseInt_minus_nat_digits: "parseInt (CHR ''-'' # nat_digits n) = Num (- int n)"
proof -
  have "\<not> isWhiteSpace (CHR ''-'')" by (simp add: isWhiteSpace_def)
  then show ?thesis
    by (simp add: parseInt_def takeWhile_nat_digits nat_digits_not_Nil mathInt_nat_digits)
qed

lemma parseInt_number_toString: "parseInt (number_toString (Num x)) = Num x"
  by (simp add: parseInt_nat_digits parseInt_minus_nat_digits)

lemma number_toString_not_Nil: "number_toString v \<noteq> []"
  by (cases v) (simp_all add: nat_digits_not_Nil)

lemma parseInt_NaN_iff: "parseInt str = NaN \<longleftrightarrow> \<not> starts_with_integer str"
proof (cases "dropWhile isWhiteSpace str")
  case Nil
  show ?thesis
    unfolding parseInt_def starts_with_integer_def Let_def Nil by simp
next
  case (Cons c cs)
  show ?thesis
  proof (cases "c = CHR ''+'' \<or> c = CHR ''-''")
    case True
    then show ?thesis
      unfolding parseInt_def starts_with_integer_def Let_def Cons by (cases cs) auto
  next
    case False
    then show ?thesis
      unfolding parseInt_def starts_with_integer_def Let_def Cons by auto
  qed
qed

lemma starts_with_integer_numeral: "is_integer_numeral str \<Longrightarrow> starts_with_integer str"
proof (cases str)
  case Nil
  assume "is_integer_numeral str"
  with Nil show ?thesis by (simp add: is_integer_numeral_def)
next
  case (Cons c cs)
  assume num: "is_integer_numeral str"
  show ?thesis
  proof (cases "c = CHR ''-''")
    case True
    then have "\<not> isWhiteSpace c" by (simp add: isWhiteSpace_def)
    moreover from num Cons True have "cs \<noteq> []" "isDigit (hd cs)"
      by (cases cs; simp add: is_integer_numeral_def)+
    ultimately show ?thesis using Cons True by (simp add: starts_with_integer_def)
  next
    case False
    with num Cons have "isDigit c" by (simp add: is_integer_numeral_def)
    then show ?thesis
      using Cons isDigit_not_space [of c] isDigit_not_sign [of c]
      by (simp add: starts_with_integer_def)
  qed
qed

lemma parseInt_1700000000000: "parseInt ''1700000000000'' = Num 1700000000000"
  by (simp add: parseInt_def isWhiteSpace_def isDigit_def mathInt_def digit_value_def)

lemma parseInt_garbled: "parseInt ''9999999999999abc'' = Num 9999999999999"
  by (simp add: parseInt_def isWhiteSpace_def isDigit_def mathInt_def digit_value_def)

section \<open>The primitives\<close>

lemmas storage_defs = perform_def setItem_def getItem_def removeItem_def
  next_currentUser_def next_authenticated_def

lemmas token_defs = setToken_def getToken_def setRefreshToken_def getRefreshToken_def
  setTokenExpiry_def clearTokens_def hasToken_def

lemma keys_distinct:
  "TOKEN_KEY \<noteq> REFRESH_TOKEN_KEY" "TOKEN_KEY \<noteq> TOKEN_EXPIRY_KEY"
  "REFRESH_TOKEN_KEY \<noteq> TOKEN_EXPIRY_KEY"
  "REFRESH_TOKEN_KEY \<noteq> TOKEN_KEY" "TOKEN_EXPIRY_KEY \<noteq> TOKEN_KEY"
  "TOKEN_EXPIRY_KEY \<noteq> REFRESH_TOKEN_KEY"
  by (simp_all add: TOKEN_KEY_def REFRESH_TOKEN_KEY_def TOKEN_EXPIRY_KEY_def)

lemmas key_defs = TOKEN_KEY_def REFRESH_TOKEN_KEY_def TOKEN_EXPIRY_KEY_def API_URL_def

lemma posts_append: "posts (es @ fs) = posts es @ posts fs"
  by (induction es rule: posts.induct) simp_all

lemma perform_fields:
  "localStorage (perform e s) = localStorage s" "currentUser (perform e s) = currentUser s"
  "authenticated (perform e s) = authenticated s" "effects (perform e s) = effects s @ [e]"
  by (simp_all add: perform_def)

lemma next_authenticated_fields:
  "localStorage (next_authenticated b s) = localStorage s"
  "currentUser (next_authenticated b s) = currentUser s"
  "authenticated (next_authenticated b s) = b"
  "effects (next_authenticated b s) = effects s @ [NextAuthenticated b]"
  by (simp_all add: next_authenticated_def perform_def)

lemma session_untouched_perform: "session_untouched s (perform e s)"
  by (simp add: session_untouched_def perform_fields)

section \<open>TokenService\<close>

lemma getTokenExpiry_setTokenExpiry:
  "getTokenExpiry (setTokenExpiry (Num x) s) = Some (Num x)"
  unfolding getTokenExpiry_def setTokenExpiry_def
  using number_toString_not_Nil [of "Num x"] parseInt_number_toString [of x]
  by (simp add: storage_defs del: number_toString.simps)

lemma localStorage_clearTokens:
  "localStorage (clearTokens s) =
     (localStorage s)(TOKEN_KEY := None, REFRESH_TOKEN_KEY := None, TOKEN_EXPIRY_KEY := None)"
  by (simp add: clearTokens_def storage_defs)

lemma currentUser_clearTokens: "currentUser (clearTokens s) = currentUser s"
  by (simp add: clearTokens_def storage_defs)

lemma authenticated_clearTokens: "authenticated (clearTokens s) = authenticated s"
  by (simp add: clearTokens_def storage_defs)

lemma effects_clearTokens:
  "effects (clearTokens s) =
     effects s @ [RemoveItem TOKEN_KEY, RemoveItem REFRESH_TOKEN_KEY, RemoveItem TOKEN_EXPIRY_KEY]"
  by (simp add: clearTokens_def storage_defs)

lemma isTokenExpired_cases:
  "isTokenExpired now s =
     (case getItem TOKEN_EXPIRY_KEY s of
        None \<Rightarrow> True
      | Some str \<Rightarrow> str = [] \<or> (case parseInt str of NaN \<Rightarrow> True | Num e \<Rightarrow> e = 0 \<or> e \<le> now))"
  by (auto simp: isTokenExpired_def getTokenExpiry_def Let_def split: option.splits number.splits)

lemma isTokenExpired_read:
  "getItem TOKEN_EXPIRY_KEY s = Some str \<Longrightarrow> parseInt str = Num e \<Longrightarrow>
   isTokenExpired now s = (e = 0 \<or> e \<le> now)"
proof -
  assume a: "getItem TOKEN_EXPIRY_KEY s = Some str" "parseInt str = Num e"
  then have "str \<noteq> []" by (auto simp: parseInt_def)
  with a show ?thesis by (auto simp: isTokenExpired_cases)
qed

section \<open>AuthService\<close>

lemma localStorage_handleAuthResponse:
  "localStorage (handleAuthResponse now r s) =
     (localStorage s)(TOKEN_KEY \<mapsto> token r, REFRESH_TOKEN_KEY \<mapsto> LoginResponse.refreshToken r,
       TOKEN_EXPIRY_KEY \<mapsto> number_toString (Num (now + expiresIn r * 1000)))"
  by (simp add: handleAuthResponse_def Let_def token_defs storage_defs del: number_toString.simps)

lemma currentUser_handleAuthResponse: "currentUser (handleAuthResponse now r s) = Some (user r)"
  by (simp add: handleAuthResponse_def Let_def token_defs storage_defs del: number_toString.simps)

lemma authenticated_handleAuthResponse: "authenticated (handleAuthResponse now r s)"
  by (simp add: handleAuthResponse_def Let_def token_defs storage_defs del: number_toString.simps)

lemma effects_handleAuthResponse:
  "effects (handleAuthResponse now r s) =
     effects s @
       [SetItem TOKEN_KEY (token r), SetItem REFRESH_TOKEN_KEY (LoginResponse.refreshToken r),
        SetItem TOKEN_EXPIRY_KEY (number_toString (Num (now + expiresIn r * 1000))),
        NextCurrentUser (Some (user r)), NextAuthenticated True]"
  by (simp add: handleAuthResponse_def Let_def token_defs storage_defs del: number_toString.simps)

lemma handleAuthResponse_setTokenExpiry:
  "getTokenExpiry (handleAuthResponse now r s) = Some (Num (now + expiresIn r * 1000))"
proof -
  have "getTokenExpiry (handleAuthResponse now r s) =
        getTokenExpiry (setTokenExpiry (Num (now + expiresIn r * 1000)) s)"
    by (simp add: getTokenExpiry_def getItem_def localStorage_handleAuthResponse
        setTokenExpiry_def setItem_def perform_def del: number_toString.simps)
  then show ?thesis by (simp only: getTokenExpiry_setTokenExpiry)
qed

lemma localStorage_clearAuth:
  "localStorage (clearAuth s) =
     (localStorage s)(TOKEN_KEY := None, REFRESH_TOKEN_KEY := None, TOKEN_EXPIRY_KEY := None)"
  by (simp add: clearAuth_def storage_defs localStorage_clearTokens)

lemma currentUser_clearAuth: "currentUser (clearAuth s) = None"
  by (simp add: clearAuth_def storage_defs)

lemma authenticated_clearAuth: "\<not> authenticated (clearAuth s)"
  by (simp add: clearAuth_def storage_defs)

lemma effects_clearAuth:
  "effects (clearAuth s) =
     effects s @ [RemoveItem TOKEN_KEY, RemoveItem REFRESH_TOKEN_KEY, RemoveItem TOKEN_EXPIRY_KEY,
                  NextCurrentUser None, NextAuthenticated False]"
  by (simp add: clearAuth_def storage_defs effects_clearTokens)

lemma logout_eq: "logout http s = clearAuth (perform (Post (API_URL @ ''/logout'') EmptyBody) s)"
  by (simp add: logout_def Let_def split: notification.split)

lemma login_Next:
  "post_auth http (API_URL @ ''/login'') (LoginBody lr) = Next r \<Longrightarrow>
   login http now lr s =
     (Next r, handleAuthResponse now r (perform (Post (API_URL @ ''/login'') (LoginBody lr)) s))"
  by (simp add: login_def Let_def)

lemma login_Error:
  "post_auth http (API_URL @ ''/login'') (LoginBody lr) = Error e \<Longrightarrow>
   login http now lr s =
     (Error e, next_authenticated False (perform (Post (API_URL @ ''/login'') (LoginBody lr)) s))"
  by (simp add: login_def Let_def)

lemma signup_Next:
  "post_auth http (API_URL @ ''/signup'') (SignupBody sr) = Next r \<Longrightarrow>
   signup http now sr s =
     (Next r, handleAuthResponse now r (perform (Post (API_URL @ ''/signup'') (SignupBody sr)) s))"
  by (simp add: signup_def Let_def)

lemma signup_Error:
  "post_auth http (API_URL @ ''/signup'') (SignupBody sr) = Error e \<Longrightarrow>
   signup http now sr s =
     (Error e, next_authenticated False (perform (Post (API_URL @ ''/signup'') (SignupBody sr)) s))"
  by (simp add: signup_def Let_def)

lemma refreshToken_absent:
  "\<not> truthy_string (getRefreshToken s) \<Longrightarrow> refreshToken http now s = (Next None, logout http s)"
  by (simp add: refreshToken_def Let_def)

lemma refreshToken_Next:
  "getRefreshToken s = Some rt \<Longrightarrow> rt \<noteq> [] \<Longrightarrow>
   post_auth http (API_URL @ ''/refresh'') (RefreshBody rt) = Next r \<Longrightarrow>
   refreshToken http now s =
     (Next (Some r), handleAuthResponse now r (perform (Post (API_URL @ ''/refresh'') (RefreshBody rt)) s))"
  by (simp add: refreshToken_def Let_def)

lemma refreshToken_Error:
  "getRefreshToken s = Some rt \<Longrightarrow> rt \<noteq> [] \<Longrightarrow>
   post_auth http (API_URL @ ''/refresh'') (RefreshBody rt) = Error e \<Longrightarrow>
   refreshToken http now s =
     (Error e, logout http (perform (Post (API_URL @ ''/refresh'') (RefreshBody rt)) s))"
  by (simp add: refreshToken_def Let_def)

lemma session_applied_handleAuthResponse: "session_applied now r (handleAuthResponse now r s)"
  by (simp add: session_applied_def getToken_def getRefreshToken_def getItem_def
      localStorage_handleAuthResponse currentUser_handleAuthResponse
      authenticated_handleAuthResponse keys_distinct del: number_toString.simps)

lemma session_cleared_clearAuth: "session_cleared (clearAuth s)"
  by (simp add: session_cleared_def getToken_def getRefreshToken_def getItem_def
      localStorage_clearAuth currentUser_clearAuth authenticated_clearAuth keys_distinct)

lemma hasToken_clearAuth: "\<not> hasToken (clearAuth s)"
  by (simp add: hasToken_def getToken_def getItem_def localStorage_clearAuth keys_distinct)

lemma getTokenExpiry_clearAuth: "getTokenExpiry (clearAuth s) = None"
  by (simp add: getTokenExpiry_def getItem_def localStorage_clearAuth)

lemma login_failure_state:
  "post_auth http (API_URL @ ''/login'') (LoginBody lr) = Error e \<Longrightarrow>
   fst (login http now lr s) = Error e \<and>
   \<not> authenticated (snd (login http now lr s)) \<and>
   localStorage (snd (login http now lr s)) = localStorage s \<and>
   currentUser (snd (login http now lr s)) = currentUser s \<and>
   effects (snd (login http now lr s)) =
     effects s @ [Post (API_URL @ ''/login'') (LoginBody lr), NextAuthenticated False]"
  by (simp add: login_Error next_authenticated_fields perform_fields)

lemma signup_failure_state:
  "post_auth http (API_URL @ ''/signup'') (SignupBody sr) = Error e \<Longrightarrow>
   fst (signup http now sr s) = Error e \<and>
   \<not> authenticated (snd (signup http now sr s)) \<and>
   localStorage (snd (signup http now sr s)) = localStorage s \<and>
   currentUser (snd (signup http now sr s)) = currentUser s \<and>
   effects (snd (signup http now sr s)) =
     effects s @ [Post (API_URL @ ''/signup'') (SignupBody sr), NextAuthenticated False]"
  by (simp add: signup_Error next_authenticated_fields perform_fields)

section \<open>The example inputs evaluated\<close>

lemma http_ok_posts:
  "post_auth http_ok url b = Next session" "post_any http_ok url b = Next ''{}''"
  by (simp_all add: http_ok_def)

lemma http_down_posts:
  "post_auth http_down url b = Error ''503''" "post_any http_down url b = Error ''503''"
  by (simp_all add: http_down_def)

lemma signed_in_fields:
  "getToken signed_in = Some ''t0''" "getRefreshToken signed_in = Some ''r0''"
  "getItem TOKEN_EXPIRY_KEY signed_in = Some ''1700000000000''"
  "currentUser signed_in = Some alice" "authenticated signed_in" "effects signed_in = []"
  by (simp_all add: signed_in_def getToken_def getRefreshToken_def getItem_def key_defs)

lemma session_fields:
  "token session = ''t''" "LoginResponse.refreshToken session = ''r''" "expiresIn session = 60"
  "user session = alice"
  by (simp_all add: session_def)

section \<open>The claims about TokenService\<close>

text \<open>
  Claim C8. For every integer millisecond value \<open>x\<close>, \<open>setTokenExpiry(x)\<close> followed by
  \<open>getTokenExpiry()\<close> returns exactly \<open>x\<close>, whatever the store held before. The integers
  meant are those a \<open>number\<close> holds exactly, the safe integers; they include 0, every
  13-digit timestamp and every time value of the language.
\<close>

theorem setTokenExpiry_getTokenExpiry_roundtrip:
  "isSafeInteger x \<Longrightarrow> getTokenExpiry (setTokenExpiry (Num x) s) = Some (Num x)"
  by (rule getTokenExpiry_setTokenExpiry)

text \<open>
  The round trip at 0 and at a 13-digit timestamp.
\<close>

theorem setTokenExpiry_getTokenExpiry_roundtrip_witness:
  "isSafeInteger 0 \<and> getTokenExpiry (setTokenExpiry (Num 0) state0) = Some (Num 0) \<and>
   isSafeInteger 1700000000000 \<and>
   getTokenExpiry (setTokenExpiry (Num 1700000000000) state0) = Some (Num 1700000000000)"
  using setTokenExpiry_getTokenExpiry_roundtrip [of 0 state0]
    setTokenExpiry_getTokenExpiry_roundtrip [of 1700000000000 state0]
  by (simp add: isSafeInteger_def)

text \<open>
  Claim C9. After \<open>clearTokens()\<close>, from any store, \<open>hasToken()\<close> is false and
  \<open>getTokenExpiry()\<close> is absent, as are all three entries. \<open>clearTokens\<close> has no failing
  branch; on a store whose three entries are already absent it leaves the store as it
  is, and running it twice leaves the store as running it once does.
\<close>

theorem clearTokens_clears_and_idempotent:
  "\<not> hasToken (clearTokens s) \<and> getTokenExpiry (clearTokens s) = None \<and>
   getToken (clearTokens s) = None \<and> getRefreshToken (clearTokens s) = None \<and>
   getItem TOKEN_EXPIRY_KEY (clearTokens s) = None \<and>
   (getItem TOKEN_KEY s = None \<and> getItem REFRESH_TOKEN_KEY s = None \<and>
    getItem TOKEN_EXPIRY_KEY s = None \<longrightarrow> localStorage (clearTokens s) = localStorage s) \<and>
   localStorage (clearTokens (clearTokens s)) = localStorage (clearTokens s)"
  by (auto simp: hasToken_def getToken_def getRefreshToken_def getTokenExpiry_def getItem_def
      localStorage_clearTokens keys_distinct)

text \<open>
  An empty store is left as it is; a store with a token has none afterwards.
\<close>

theorem clearTokens_clears_and_idempotent_witness:
  "getItem TOKEN_KEY state0 = None \<and> getItem REFRESH_TOKEN_KEY state0 = None \<and>
   getItem TOKEN_EXPIRY_KEY state0 = None \<and>
   localStorage (clearTokens state0) = localStorage state0 \<and>
   hasToken signed_in \<and> \<not> hasToken (clearTokens signed_in) \<and>
   getTokenExpiry (clearTokens signed_in) = None"
proof -
  have h: "getItem TOKEN_KEY state0 = None" "getItem REFRESH_TOKEN_KEY state0 = None"
    "getItem TOKEN_EXPIRY_KEY state0 = None"
    by (simp_all add: getItem_def state0_def)
  have t: "hasToken signed_in"
    by (simp add: hasToken_def signed_in_fields)
  show ?thesis
    using h t clearTokens_clears_and_idempotent [of state0]
      clearTokens_clears_and_idempotent [of signed_in]
    by simp
qed

text \<open>
  Claim C4, as amended. \<open>isTokenExpired()\<close> returns true when no expiry entry is
  recorded, and when the recorded string does not start with an integer (the empty
  string among them). A recorded string that starts with an integer is read as that
  integer, whatever follows the digits; read as \<open>e\<close>, the result is true iff \<open>e = 0\<close> or
  the clock reading is at least \<open>e\<close>. So for the numeral of an integer \<open>e\<close>, as
  \<open>setTokenExpiry\<close> writes it, and a clock reading that is not negative, the result is
  true iff the clock reading is at least \<open>e\<close>. Every integer numeral starts with an integer.
\<close>

theorem isTokenExpired_by_recorded_expiry:
  "(getItem TOKEN_EXPIRY_KEY s = None \<longrightarrow> isTokenExpired now s) \<and>
   (getItem TOKEN_EXPIRY_KEY s = Some str \<and> \<not> starts_with_integer str \<longrightarrow> isTokenExpired now s) \<and>
   (getItem TOKEN_EXPIRY_KEY s = Some str \<and> parseInt str = Num e \<longrightarrow>
      isTokenExpired now s = (e = 0 \<or> e \<le> now)) \<and>
   (getItem TOKEN_EXPIRY_KEY s = Some (number_toString (Num e)) \<longrightarrow>
      isTokenExpired now s = (e = 0 \<or> e \<le> now)) \<and>
   (getItem TOKEN_EXPIRY_KEY s = Some (number_toString (Num e)) \<and> 0 \<le> now \<longrightarrow>
      isTokenExpired now s = (e \<le> now)) \<and>
   (is_integer_numeral str \<longrightarrow> starts_with_integer str)"
proof -
  have none: "getItem TOKEN_EXPIRY_KEY s = None \<longrightarrow> isTokenExpired now s"
    by (simp add: isTokenExpired_cases)
  have nan: "getItem TOKEN_EXPIRY_KEY s = Some str \<and> \<not> starts_with_integer str \<longrightarrow>
      isTokenExpired now s"
    using parseInt_NaN_iff [of str] by (auto simp: isTokenExpired_cases)
  have rd: "getItem TOKEN_EXPIRY_KEY s = Some str \<and> parseInt str = Num e \<longrightarrow>
      isTokenExpired now s = (e = 0 \<or> e \<le> now)"
    using isTokenExpired_read by blast
  have wr: "getItem TOKEN_EXPIRY_KEY s = Some (number_toString (Num e)) \<longrightarrow>
      isTokenExpired now s = (e = 0 \<or> e \<le> now)"
    using isTokenExpired_read [of s "number_toString (Num e)" e now] parseInt_number_toString [of e]
    by blast
  have wr0: "getItem TOKEN_EXPIRY_KEY s = Some (number_toString (Num e)) \<and> 0 \<le> now \<longrightarrow>
      isTokenExpired now s = (e \<le> now)"
    using wr by auto
  have nm: "is_integer_numeral str \<longrightarrow> starts_with_integer str"
    using starts_with_integer_numeral by blast
  from none nan rd wr wr0 nm show ?thesis by blast
qed

text \<open>
  No entry and a string without digits are expired; a far-future integer followed by
  letters is not; the numeral of 1700000000000 is expired from that instant on.
\<close>

theorem isTokenExpired_by_recorded_expiry_witness:
  "getItem TOKEN_EXPIRY_KEY state0 = None \<and> isTokenExpired 1700000000000 state0 \<and>
   getItem TOKEN_EXPIRY_KEY (setItem TOKEN_EXPIRY_KEY ''soon'' state0) = Some ''soon'' \<and>
   \<not> starts_with_integer ''soon'' \<and>
   isTokenExpired 1700000000000 (setItem TOKEN_EXPIRY_KEY ''soon'' state0) \<and>
   getItem TOKEN_EXPIRY_KEY garbled_expiry = Some ''9999999999999abc'' \<and>
   parseInt ''9999999999999abc'' = Num 9999999999999 \<and>
   \<not> isTokenExpired 1700000000000 garbled_expiry \<and>
   getItem TOKEN_EXPIRY_KEY signed_in = Some (number_toString (Num 1700000000000)) \<and>
   isTokenExpired 1700000000000 signed_in \<and> \<not> isTokenExpired 1699999999999 signed_in \<and>
   is_integer_numeral ''1700000000000'' \<and> starts_with_integer ''1700000000000''"
proof -
  have h1: "getItem TOKEN_EXPIRY_KEY state0 = None"
    by (simp add: getItem_def state0_def)
  have h2: "getItem TOKEN_EXPIRY_KEY (setItem TOKEN_EXPIRY_KEY ''soon'' state0) = Some ''soon''"
    by (simp add: getItem_def setItem_def perform_def)
  have h3: "\<not> starts_with_integer ''soon''"
    by (simp add: starts_with_integer_def isWhiteSpace_def isDigit_def)
  have h4: "getItem TOKEN_EXPIRY_KEY garbled_expiry = Some ''9999999999999abc''"
    by (simp add: getItem_def garbled_expiry_def key_defs)
  have h5: "number_toString (Num 1700000000000) = ''1700000000000''"
    by (simp add: nat_digits.simps digit_char_def)
  have h6: "is_integer_numeral ''1700000000000''"
    by (simp add: is_integer_numeral_def isDigit_def)
  show ?thesis
    using h1 h2 h3 h4 h5 h6 parseInt_garbled signed_in_fields(3)
      isTokenExpired_by_recorded_expiry [of state0 1700000000000 "''soon''" 0]
      isTokenExpired_by_recorded_expiry
        [of "setItem TOKEN_EXPIRY_KEY ''soon'' state0" 1700000000000 "''soon''" 0]
      isTokenExpired_by_recorded_expiry
        [of garbled_expiry 1700000000000 "''9999999999999abc''" 9999999999999]
      isTokenExpired_by_recorded_expiry [of signed_in 1700000000000 "''1700000000000''" 1700000000000]
      isTokenExpired_by_recorded_expiry [of signed_in 1699999999999 "''1700000000000''" 1700000000000]
    by (simp del: number_toString.simps)
qed

text \<open>
  Claim C4 as stated fails: the recorded string \<open>9999999999999abc\<close> is not an integer
  numeral, yet at clock reading 1700000000000 the token is not reported expired.
\<close>

theorem isTokenExpired_malformed_counterexample:
  "getItem TOKEN_EXPIRY_KEY garbled_expiry = Some ''9999999999999abc'' \<and>
   \<not> is_integer_numeral ''9999999999999abc'' \<and>
   \<not> isTokenExpired 1700000000000 garbled_expiry"
proof -
  have h: "getItem TOKEN_EXPIRY_KEY garbled_expiry = Some ''9999999999999abc''"
    by (simp add: getItem_def garbled_expiry_def key_defs)
  have n: "\<not> is_integer_numeral ''9999999999999abc''"
    by (simp add: is_integer_numeral_def isDigit_def)
  have "\<not> isTokenExpired 1700000000000 garbled_expiry"
    using isTokenExpired_read [OF h parseInt_garbled, of 1700000000000] by simp
  with h n show ?thesis by simp
qed

section \<open>The claims about AuthService\<close>

text \<open>
  Claim C5. Handling a response \<open>{token, refreshToken, expiresIn, user}\<close> at time
  \<open>now\<close>, \<open>handleAuthResponse\<close> performs exactly five effects, in this order: it writes
  the access token, the refresh token and the expiry to the store, pushes the user of
  the response into \<open>currentUser$\<close> and pushes \<open>true\<close> into \<open>authenticated$\<close>. Afterwards
  the store holds the two tokens and the expiry string written, the user is the user
  of the response and \<open>authenticated\<close> is true. When the arithmetic is exact
  (\<open>expiry_exact\<close>: clock reading, product and sum are safe integers), the expiry
  written is the numeral of \<open>now + expiresIn * 1000\<close> and reads back as that number. A
  successful \<open>login\<close>, \<open>signup\<close> or \<open>refreshToken\<close> hands the response to the subscriber
  and ends in the state \<open>handleAuthResponse\<close> produces from the state in which the
  request was sent.
\<close>

theorem handleAuthResponse_applies_response:
  "(\<exists>v. effects (handleAuthResponse now r s) =
          effects s @
            [SetItem TOKEN_KEY (token r), SetItem REFRESH_TOKEN_KEY (LoginResponse.refreshToken r),
             SetItem TOKEN_EXPIRY_KEY v, NextCurrentUser (Some (user r)), NextAuthenticated True] \<and>
        getItem TOKEN_EXPIRY_KEY (handleAuthResponse now r s) = Some v \<and>
        (expiry_exact now r \<longrightarrow> v = number_toString (Num (now + expiresIn r * 1000)))) \<and>
   getToken (handleAuthResponse now r s) = Some (token r) \<and>
   getRefreshToken (handleAuthResponse now r s) = Some (LoginResponse.refreshToken r) \<and>
   (expiry_exact now r \<longrightarrow>
      getTokenExpiry (handleAuthResponse now r s) = Some (Num (now + expiresIn r * 1000))) \<and>
   currentUser (handleAuthResponse now r s) = Some (user r) \<and>
   authenticated (handleAuthResponse now r s) \<and>
   (post_auth http (API_URL @ ''/login'') (LoginBody lr) = Next r \<longrightarrow>
      login http now lr s =
        (Next r, handleAuthResponse now r (perform (Post (API_URL @ ''/login'') (LoginBody lr)) s))) \<and>
   (post_auth http (API_URL @ ''/signup'') (SignupBody sr) = Next r \<longrightarrow>
      signup http now sr s =
        (Next r, handleAuthResponse now r (perform (Post (API_URL @ ''/signup'') (SignupBody sr)) s))) \<and>
   (getRefreshToken s = Some rt \<and> rt \<noteq> [] \<and>
    post_auth http (API_URL @ ''/refresh'') (RefreshBody rt) = Next r \<longrightarrow>
      refreshToken http now s =
        (Next (Some r),
         handleAuthResponse now r (perform (Post (API_URL @ ''/refresh'') (RefreshBody rt)) s)))"
proof -
  let ?v = "number_toString (Num (now + expiresIn r * 1000))"
  have written: "getItem TOKEN_EXPIRY_KEY (handleAuthResponse now r s) = Some ?v"
    by (simp add: getItem_def localStorage_handleAuthResponse del: number_toString.simps)
  have order: "\<exists>v. effects (handleAuthResponse now r s) =
          effects s @
            [SetItem TOKEN_KEY (token r), SetItem REFRESH_TOKEN_KEY (LoginResponse.refreshToken r),
             SetItem TOKEN_EXPIRY_KEY v, NextCurrentUser (Some (user r)), NextAuthenticated True] \<and>
        getItem TOKEN_EXPIRY_KEY (handleAuthResponse now r s) = Some v \<and>
        (expiry_exact now r \<longrightarrow> v = number_toString (Num (now + expiresIn r * 1000)))"
    using written effects_handleAuthResponse [of now r s] by blast
  have st: "session_applied now r (handleAuthResponse now r s)"
    by (rule session_applied_handleAuthResponse)
  have rest: "getToken (handleAuthResponse now r s) = Some (token r)"
    "getRefreshToken (handleAuthResponse now r s) = Some (LoginResponse.refreshToken r)"
    "currentUser (handleAuthResponse now r s) = Some (user r)"
    "authenticated (handleAuthResponse now r s)"
    using st by (simp_all add: session_applied_def)
  show ?thesis
    using order rest
    by (simp add: handleAuthResponse_setTokenExpiry login_Next signup_Next refreshToken_Next
        del: number_toString.simps)
qed

text \<open>
  The response \<open>{token: "t", refreshToken: "r", expiresIn: 60}\<close> handled at
  1700000000000 records the expiry 1700000060000.
\<close>

theorem handleAuthResponse_applies_response_witness:
  "expiry_exact 1700000000000 session \<and>
   post_auth http_ok (API_URL @ ''/login'') (LoginBody alice_login) = Next session \<and>
   post_auth http_ok (API_URL @ ''/signup'') (SignupBody alice_signup) = Next session \<and>
   getRefreshToken signed_in = Some ''r0'' \<and>
   post_auth http_ok (API_URL @ ''/refresh'') (RefreshBody ''r0'') = Next session \<and>
   effects (handleAuthResponse 1700000000000 session signed_in) =
     [SetItem TOKEN_KEY ''t'', SetItem REFRESH_TOKEN_KEY ''r'',
      SetItem TOKEN_EXPIRY_KEY ''1700000060000'', NextCurrentUser (Some alice),
      NextAuthenticated True] \<and>
   getItem TOKEN_EXPIRY_KEY (handleAuthResponse 1700000000000 session signed_in) =
     Some ''1700000060000'' \<and>
   getToken (handleAuthResponse 1700000000000 session signed_in) = Some ''t'' \<and>
   getRefreshToken (handleAuthResponse 1700000000000 session signed_in) = Some ''r'' \<and>
   getTokenExpiry (handleAuthResponse 1700000000000 session signed_in) = Some (Num 1700000060000) \<and>
   currentUser (handleAuthResponse 1700000000000 session signed_in) = Some alice \<and>
   authenticated (handleAuthResponse 1700000000000 session signed_in) \<and>
   snd (login http_ok 1700000000000 alice_login signed_in) =
     handleAuthResponse 1700000000000 session
       (perform (Post (API_URL @ ''/login'') (LoginBody alice_login)) signed_in) \<and>
   snd (signup http_ok 1700000000000 alice_signup signed_in) =
     handleAuthResponse 1700000000000 session
       (perform (Post (API_URL @ ''/signup'') (SignupBody alice_signup)) signed_in) \<and>
   snd (refreshToken http_ok 1700000000000 signed_in) =
     handleAuthResponse 1700000000000 session
       (perform (Post (API_URL @ ''/refresh'') (RefreshBody ''r0'')) signed_in)"
proof -
  have exact: "expiry_exact 1700000000000 session"
    by (simp add: expiry_exact_def isSafeInteger_def session_fields)
  have numeral: "number_toString (Num (1700000000000 + expiresIn session * 1000)) = ''1700000060000''"
    by (simp add: session_fields nat_digits.simps digit_char_def)
  note inst = handleAuthResponse_applies_response
      [of 1700000000000 session signed_in http_ok alice_login alice_signup "''r0''"]
  from inst obtain v where
    v: "effects (handleAuthResponse 1700000000000 session signed_in) =
          effects signed_in @
            [SetItem TOKEN_KEY (token session),
             SetItem REFRESH_TOKEN_KEY (LoginResponse.refreshToken session),
             SetItem TOKEN_EXPIRY_KEY v, NextCurrentUser (Some (user session)),
             NextAuthenticated True]"
      "getItem TOKEN_EXPIRY_KEY (handleAuthResponse 1700000000000 session signed_in) = Some v"
      "expiry_exact 1700000000000 session \<longrightarrow>
         v = number_toString (Num (1700000000000 + expiresIn session * 1000))"
    by blast
  from v(3) exact numeral have "v = ''1700000060000''" by simp
  with v(1,2) have written:
    "effects (handleAuthResponse 1700000000000 session signed_in) =
       [SetItem TOKEN_KEY ''t'', SetItem REFRESH_TOKEN_KEY ''r'',
        SetItem TOKEN_EXPIRY_KEY ''1700000060000'', NextCurrentUser (Some alice),
        NextAuthenticated True]"
    "getItem TOKEN_EXPIRY_KEY (handleAuthResponse 1700000000000 session signed_in) =
       Some ''1700000060000''"
    by (simp_all add: signed_in_fields session_fields)
  show ?thesis
    using exact written inst [THEN conjunct2]
    by (simp add: http_ok_posts signed_in_fields session_fields del: number_toString.simps)
qed

text \<open>
  Claim C3. From every state and however the logout request settles, \<open>logout()\<close> ends
  in the state \<open>clearAuth\<close> produces: \<open>authenticated\<close> is false, the current user is
  absent, and the access token, the refresh token and the expiry are absent from the
  store.
\<close>

theorem logout_clears_session:
  "logout http s = clearAuth (perform (Post (API_URL @ ''/logout'') EmptyBody) s) \<and>
   \<not> authenticated (logout http s) \<and> currentUser (logout http s) = None \<and>
   getToken (logout http s) = None \<and> getRefreshToken (logout http s) = None \<and>
   getItem TOKEN_EXPIRY_KEY (logout http s) = None \<and> getTokenExpiry (logout http s) = None"
  using session_cleared_clearAuth [of "perform (Post (API_URL @ ''/logout'') EmptyBody) s"]
  by (simp add: logout_eq session_cleared_def getTokenExpiry_clearAuth)

text \<open>
  A signed-in session is cleared when the logout request succeeds and when it fails.
\<close>

theorem logout_clears_session_witness:
  "post_any http_ok (API_URL @ ''/logout'') EmptyBody = Next ''{}'' \<and>
   post_any http_down (API_URL @ ''/logout'') EmptyBody = Error ''503'' \<and>
   authenticated signed_in \<and> getToken signed_in = Some ''t0'' \<and>
   \<not> authenticated (logout http_ok signed_in) \<and> getToken (logout http_ok signed_in) = None \<and>
   \<not> authenticated (logout http_down signed_in) \<and> getToken (logout http_down signed_in) = None"
  using logout_clears_session [of http_ok signed_in, THEN conjunct2]
    logout_clears_session [of http_down signed_in, THEN conjunct2]
  by (simp add: http_ok_posts http_down_posts signed_in_fields)

text \<open>
  Claim C6. When the request of \<open>login\<close> or of \<open>signup\<close> fails, the subscriber receives
  the same error and the latest value of \<open>authenticated$\<close> is false.
\<close>

theorem login_signup_failure:
  "(post_auth http (API_URL @ ''/login'') (LoginBody lr) = Error e \<longrightarrow>
      fst (login http now lr s) = Error e \<and> \<not> authenticated (snd (login http now lr s))) \<and>
   (post_auth http (API_URL @ ''/signup'') (SignupBody sr) = Error e \<longrightarrow>
      fst (signup http now sr s) = Error e \<and> \<not> authenticated (snd (signup http now sr s)))"
  by (simp add: login_failure_state signup_failure_state)

text \<open>
  Both operations against a server that answers 503, from a signed-in session.
\<close>

theorem login_signup_failure_witness:
  "post_auth http_down (API_URL @ ''/login'') (LoginBody alice_login) = Error ''503'' \<and>
   post_auth http_down (API_URL @ ''/signup'') (SignupBody alice_signup) = Error ''503'' \<and>
   authenticated signed_in \<and>
   fst (login http_down 0 alice_login signed_in) = Error ''503'' \<and>
   \<not> authenticated (snd (login http_down 0 alice_login signed_in)) \<and>
   fst (signup http_down 0 alice_signup signed_in) = Error ''503'' \<and>
   \<not> authenticated (snd (signup http_down 0 alice_signup signed_in))"
  using login_signup_failure [of http_down alice_login "''503''" 0 signed_in alice_signup]
  by (simp add: http_down_posts signed_in_fields)

text \<open>
  Claim C10. When the request of \<open>login\<close> or of \<open>signup\<close> fails, the store and the
  current user are what they were before the call; the only effects are the request
  and the push of \<open>false\<close> into \<open>authenticated$\<close>. A current user present before the
  call is still present, with \<open>authenticated\<close> false.
\<close>

theorem login_signup_failure_frame:
  "(post_auth http (API_URL @ ''/login'') (LoginBody lr) = Error e \<longrightarrow>
      localStorage (snd (login http now lr s)) = localStorage s \<and>
      currentUser (snd (login http now lr s)) = currentUser s \<and>
      \<not> authenticated (snd (login http now lr s)) \<and>
      effects (snd (login http now lr s)) =
        effects s @ [Post (API_URL @ ''/login'') (LoginBody lr), NextAuthenticated False]) \<and>
   (post_auth http (API_URL @ ''/signup'') (SignupBody sr) = Error e \<longrightarrow>
      localStorage (snd (signup http now sr s)) = localStorage s \<and>
      currentUser (snd (signup http now sr s)) = currentUser s \<and>
      \<not> authenticated (snd (signup http now sr s)) \<and>
      effects (snd (signup http now sr s)) =
        effects s @ [Post (API_URL @ ''/signup'') (SignupBody sr), NextAuthenticated False])"
  by (simp add: login_failure_state signup_failure_state)

text \<open>
  After a failed login from a signed-in session the three entries and the user are
  still there, and \<open>authenticated\<close> is false.
\<close>

theorem login_signup_failure_frame_witness:
  "post_auth http_down (API_URL @ ''/login'') (LoginBody alice_login) = Error ''503'' \<and>
   post_auth http_down (API_URL @ ''/signup'') (SignupBody alice_signup) = Error ''503'' \<and>
   getToken (snd (login http_down 0 alice_login signed_in)) = Some ''t0'' \<and>
   getRefreshToken (snd (login http_down 0 alice_login signed_in)) = Some ''r0'' \<and>
   getItem TOKEN_EXPIRY_KEY (snd (login http_down 0 alice_login signed_in)) = Some ''1700000000000'' \<and>
   currentUser (snd (login http_down 0 alice_login signed_in)) = Some alice \<and>
   \<not> authenticated (snd (login http_down 0 alice_login signed_in)) \<and>
   getToken (snd (signup http_down 0 alice_signup signed_in)) = Some ''t0'' \<and>
   currentUser (snd (signup http_down 0 alice_signup signed_in)) = Some alice \<and>
   \<not> authenticated (snd (signup http_down 0 alice_signup signed_in))"
  using login_signup_failure_frame [of http_down alice_login "''503''" 0 signed_in alice_signup]
    signed_in_fields
  by (simp add: http_down_posts getToken_def getRefreshToken_def getItem_def)

text \<open>
  Claim C7. \<open>isAuthenticated()\<close> equals \<open>hasToken() && !isTokenExpired()\<close>, and two
  states with the same store give the same answer, whatever their cached
  \<open>authenticated\<close> flag and current user are.
\<close>

theorem isAuthenticated_recomputed:
  "isAuthenticated now s = (hasToken s \<and> \<not> isTokenExpired now s) \<and>
   (localStorage s' = localStorage s \<longrightarrow> isAuthenticated now s' = isAuthenticated now s)"
  by (simp add: isAuthenticated_def hasToken_def isTokenExpired_def getTokenExpiry_def
      getToken_def getItem_def)

text \<open>
  With the cached flag false and a token that is not yet expired, the snapshot is true.
\<close>

theorem isAuthenticated_recomputed_witness:
  "localStorage (signed_in\<lparr>authenticated := False\<rparr>) = localStorage signed_in \<and>
   \<not> authenticated (signed_in\<lparr>authenticated := False\<rparr>) \<and>
   isAuthenticated 1699999999999 (signed_in\<lparr>authenticated := False\<rparr>) \<and>
   isAuthenticated 1699999999999 signed_in \<and>
   \<not> isAuthenticated 1700000000000 signed_in"
proof -
  have p: "parseInt ''1700000000000'' = Num 1700000000000"
    by (simp add: parseInt_def isWhiteSpace_def isDigit_def mathInt_def digit_value_def)
  have a: "isAuthenticated 1699999999999 signed_in" "\<not> isAuthenticated 1700000000000 signed_in"
    using signed_in_fields p
    by (simp_all add: isAuthenticated_def hasToken_def isTokenExpired_def getTokenExpiry_def)
  show ?thesis
    using a isAuthenticated_recomputed [of 1699999999999 signed_in "signed_in\<lparr>authenticated := False\<rparr>"]
    by simp
qed

text \<open>
  Claim C1, as amended. With no refresh token stored (none, or the empty string),
  \<open>refreshToken()\<close> sends no refresh request; the one request it sends is the logout
  notification \<open>POST /api/auth/logout\<close>. The subscriber receives a null result, and
  once the logout request has settled, either way, \<open>authenticated\<close> is false,
  \<open>hasToken()\<close> is false and the current user is absent.
\<close>

theorem refreshToken_without_refresh_token:
  "\<not> truthy_string (getRefreshToken s) \<Longrightarrow>
   fst (refreshToken http now s) = Next None \<and>
   posts (effects (snd (refreshToken http now s))) =
     posts (effects s) @ [(API_URL @ ''/logout'', EmptyBody)] \<and>
   \<not> authenticated (snd (refreshToken http now s)) \<and>
   \<not> hasToken (snd (refreshToken http now s)) \<and>
   currentUser (snd (refreshToken http now s)) = None"
  by (simp add: refreshToken_absent logout_eq authenticated_clearAuth hasToken_clearAuth
      currentUser_clearAuth effects_clearAuth perform_fields posts_append)

text \<open>
  A session with an access token but no refresh token, against a server that answers 503.
\<close>

theorem refreshToken_without_refresh_token_witness:
  "\<not> truthy_string (getRefreshToken no_refresh_token) \<and>
   fst (refreshToken http_down 1699999999999 no_refresh_token) = Next None \<and>
   posts (effects (snd (refreshToken http_down 1699999999999 no_refresh_token))) =
     [(''/api/auth/logout'', EmptyBody)] \<and>
   \<not> authenticated (snd (refreshToken http_down 1699999999999 no_refresh_token)) \<and>
   \<not> hasToken (snd (refreshToken http_down 1699999999999 no_refresh_token))"
proof -
  have h: "\<not> truthy_string (getRefreshToken no_refresh_token)"
    by (simp add: getRefreshToken_def getItem_def no_refresh_token_def key_defs)
  have e: "posts (effects no_refresh_token) = []"
    by (simp add: no_refresh_token_def)
  show ?thesis
    using h e refreshToken_without_refresh_token [OF h, of http_down 1699999999999]
    by (simp add: API_URL_def)
qed

text \<open>
  Claim C1 as stated fails: with no refresh token stored, \<open>refreshToken()\<close> does perform
  a network call, the logout notification.
\<close>

theorem refreshToken_posts_logout_counterexample:
  "getRefreshToken state0 = None \<and>
   posts (effects (snd (refreshToken http_ok 0 state0))) = [(''/api/auth/logout'', EmptyBody)] \<and>
   posts (effects (snd (refreshToken http_ok 0 state0))) \<noteq> []"
proof -
  have h: "getRefreshToken state0 = None"
    by (simp add: getRefreshToken_def getItem_def state0_def)
  then have "refreshToken http_ok 0 state0 = (Next None, logout http_ok state0)"
    by (simp add: refreshToken_absent)
  then have "posts (effects (snd (refreshToken http_ok 0 state0))) = [(''/api/auth/logout'', EmptyBody)]"
    by (simp add: logout_eq effects_clearAuth perform_fields posts_append state0_def API_URL_def)
  with h show ?thesis by simp
qed

text \<open>
  Claim C2, as amended. On success, \<open>login\<close>, \<open>signup\<close> and \<open>refreshToken\<close> put the
  response in force: the two tokens and an expiry in the store (the numeral of
  \<open>now + expiresIn * 1000\<close> when that arithmetic is exact), the current user and
  \<open>authenticated\<close> true. \<open>logout\<close>, however its request settles, and \<open>refreshToken\<close> on failure clear
  the session: the three entries and the user absent, \<open>authenticated\<close> false; the
  failed refresh also hands its error to the subscriber. \<open>login\<close> and \<open>signup\<close> on
  failure set \<open>authenticated\<close> to false and leave the current user and the store as
  they were. \<open>requestPasswordReset\<close>, \<open>resetPassword\<close> and \<open>changePassword\<close> hand on
  what the server answers, value or error, and leave the store, the current user and
  \<open>authenticated\<close> as they were.
\<close>

theorem session_change_by_operation:
  "(post_auth http (API_URL @ ''/login'') (LoginBody lr) = Next r \<longrightarrow>
      session_applied now r (snd (login http now lr s))) \<and>
   (post_auth http (API_URL @ ''/signup'') (SignupBody sr) = Next r \<longrightarrow>
      session_applied now r (snd (signup http now sr s))) \<and>
   (getRefreshToken s = Some rt \<and> rt \<noteq> [] \<and>
    post_auth http (API_URL @ ''/refresh'') (RefreshBody rt) = Next r \<longrightarrow>
      session_applied now r (snd (refreshToken http now s))) \<and>
   session_cleared (logout http s) \<and>
   (getRefreshToken s = Some rt \<and> rt \<noteq> [] \<and>
    post_auth http (API_URL @ ''/refresh'') (RefreshBody rt) = Error e \<longrightarrow>
      fst (refreshToken http now s) = Error e \<and> session_cleared (snd (refreshToken http now s))) \<and>
   (post_auth http (API_URL @ ''/login'') (LoginBody lr) = Error e \<longrightarrow>
      \<not> authenticated (snd (login http now lr s)) \<and>
      currentUser (snd (login http now lr s)) = currentUser s \<and>
      localStorage (snd (login http now lr s)) = localStorage s) \<and>
   (post_auth http (API_URL @ ''/signup'') (SignupBody sr) = Error e \<longrightarrow>
      \<not> authenticated (snd (signup http now sr s)) \<and>
      currentUser (snd (signup http now sr s)) = currentUser s \<and>
      localStorage (snd (signup http now sr s)) = localStorage s) \<and>
   fst (requestPasswordReset http email s) =
     post_any http (API_URL @ ''/password-reset/request'') (PasswordResetRequestBody email) \<and>
   session_untouched s (snd (requestPasswordReset http email s)) \<and>
   fst (resetPassword http tok newPassword s) =
     post_any http (API_URL @ ''/password-reset/confirm'') (PasswordResetConfirmBody tok newPassword) \<and>
   session_untouched s (snd (resetPassword http tok newPassword s)) \<and>
   fst (changePassword http oldPassword newPassword s) =
     post_any http (API_URL @ ''/change-password'') (ChangePasswordBody oldPassword newPassword) \<and>
   session_untouched s (snd (changePassword http oldPassword newPassword s))"
proof -
  have ok: "post_auth http (API_URL @ ''/login'') (LoginBody lr) = Next r \<longrightarrow>
      session_applied now r (snd (login http now lr s))"
    "post_auth http (API_URL @ ''/signup'') (SignupBody sr) = Next r \<longrightarrow>
      session_applied now r (snd (signup http now sr s))"
    "getRefreshToken s = Some rt \<and> rt \<noteq> [] \<and>
     post_auth http (API_URL @ ''/refresh'') (RefreshBody rt) = Next r \<longrightarrow>
      session_applied now r (snd (refreshToken http now s))"
    by (simp_all add: login_Next signup_Next refreshToken_Next session_applied_handleAuthResponse)
  have out: "session_cleared (logout http s)"
    "getRefreshToken s = Some rt \<and> rt \<noteq> [] \<and>
     post_auth http (API_URL @ ''/refresh'') (RefreshBody rt) = Error e \<longrightarrow>
      fst (refreshToken http now s) = Error e \<and> session_cleared (snd (refreshToken http now s))"
    by (simp_all add: refreshToken_Error logout_eq session_cleared_clearAuth)
  have fail: "post_auth http (API_URL @ ''/login'') (LoginBody lr) = Error e \<longrightarrow>
      \<not> authenticated (snd (login http now lr s)) \<and>
      currentUser (snd (login http now lr s)) = currentUser s \<and>
      localStorage (snd (login http now lr s)) = localStorage s"
    "post_auth http (API_URL @ ''/signup'') (SignupBody sr) = Error e \<longrightarrow>
      \<not> authenticated (snd (signup http now sr s)) \<and>
      currentUser (snd (signup http now sr s)) = currentUser s \<and>
      localStorage (snd (signup http now sr s)) = localStorage s"
    by (simp_all add: login_failure_state signup_failure_state)
  have pw: "fst (requestPasswordReset http email s) =
     post_any http (API_URL @ ''/password-reset/request'') (PasswordResetRequestBody email)"
    "session_untouched s (snd (requestPasswordReset http email s))"
    "fst (resetPassword http tok newPassword s) =
     post_any http (API_URL @ ''/password-reset/confirm'') (PasswordResetConfirmBody tok newPassword)"
    "session_untouched s (snd (resetPassword http tok newPassword s))"
    "fst (changePassword http oldPassword newPassword s) =
     post_any http (API_URL @ ''/change-password'') (ChangePasswordBody oldPassword newPassword)"
    "session_untouched s (snd (changePassword http oldPassword newPassword s))"
    by (simp_all add: requestPasswordReset_def resetPassword_def changePassword_def Let_def
        session_untouched_perform)
  from ok out fail pw show ?thesis by blast
qed

text \<open>
  The seven operations against a server that accepts and one that answers 503, from a
  signed-in session.
\<close>

theorem session_change_by_operation_witness:
  "post_auth http_ok (API_URL @ ''/login'') (LoginBody alice_login) = Next session \<and>
   post_auth http_ok (API_URL @ ''/signup'') (SignupBody alice_signup) = Next session \<and>
   getRefreshToken signed_in = Some ''r0'' \<and>
   post_auth http_ok (API_URL @ ''/refresh'') (RefreshBody ''r0'') = Next session \<and>
   post_auth http_down (API_URL @ ''/refresh'') (RefreshBody ''r0'') = Error ''503'' \<and>
   post_auth http_down (API_URL @ ''/login'') (LoginBody alice_login) = Error ''503'' \<and>
   post_auth http_down (API_URL @ ''/signup'') (SignupBody alice_signup) = Error ''503'' \<and>
   expiry_exact 1700000000000 session \<and>
   session_applied 1700000000000 session (snd (login http_ok 1700000000000 alice_login signed_in)) \<and>
   getItem TOKEN_EXPIRY_KEY (snd (login http_ok 1700000000000 alice_login signed_in)) =
     Some ''1700000060000'' \<and>
   session_applied 1700000000000 session (snd (signup http_ok 1700000000000 alice_signup signed_in)) \<and>
   session_applied 1700000000000 session (snd (refreshToken http_ok 1700000000000 signed_in)) \<and>
   session_cleared (logout http_down signed_in) \<and>
   fst (refreshToken http_down 1700000000000 signed_in) = Error ''503'' \<and>
   session_cleared (snd (refreshToken http_down 1700000000000 signed_in)) \<and>
   \<not> authenticated (snd (login http_down 1700000000000 alice_login signed_in)) \<and>
   currentUser (snd (login http_down 1700000000000 alice_login signed_in)) = Some alice \<and>
   \<not> authenticated (snd (signup http_down 1700000000000 alice_signup signed_in)) \<and>
   currentUser (snd (signup http_down 1700000000000 alice_signup signed_in)) = Some alice"
proof -
  have exact: "expiry_exact 1700000000000 session"
    by (simp add: expiry_exact_def isSafeInteger_def session_fields)
  have numeral: "number_toString (Num (1700000000000 + expiresIn session * 1000)) = ''1700000060000''"
    by (simp add: session_fields nat_digits.simps digit_char_def)
  note ok = session_change_by_operation
      [of http_ok alice_login session 1700000000000 signed_in alice_signup "''r0''" "''503''"]
  note down = session_change_by_operation
      [of http_down alice_login session 1700000000000 signed_in alice_signup "''r0''" "''503''"]
  from ok have
    "session_applied 1700000000000 session (snd (login http_ok 1700000000000 alice_login signed_in))"
    by (simp add: http_ok_posts)
  with exact numeral have written:
    "getItem TOKEN_EXPIRY_KEY (snd (login http_ok 1700000000000 alice_login signed_in)) =
       Some ''1700000060000''"
    by (simp add: session_applied_def del: number_toString.simps)
  show ?thesis
    using exact written ok down
    by (simp add: http_ok_posts http_down_posts signed_in_fields)
qed

text \<open>
  Claim C2 as stated fails: a failed \<open>requestPasswordReset\<close> from a signed-in session
  leaves \<open>authenticated\<close> true and the current user present.
\<close>

theorem password_reset_failure_counterexample:
  "fst (requestPasswordReset http_down ''alice@example.org'' signed_in) = Error ''503'' \<and>
   authenticated (snd (requestPasswordReset http_down ''alice@example.org'' signed_in)) \<and>
   currentUser (snd (requestPasswordReset http_down ''alice@example.org'' signed_in)) = Some alice"
  by (simp add: requestPasswordReset_def Let_def perform_fields http_down_posts signed_in_fields)

end
